theory Spec2Isabelle
  imports Main
begin

section \<open>The workspace manager: a shallow embedding of workspace-manager.py\<close>

text \<open>
  The script shells out to \<open>hyprctl\<close>, decodes its JSON output and prints lines. What the
  Python libraries and the external utility do is the environment of the model (the record
  \<open>env\<close>); what the four functions of the script do with it is translated line by line.
  A function of the script becomes a function from the state before the call to a result
  and the state after it; an exception that leaves a function is the result \<open>Inl e\<close>.
\<close>

subsection \<open>Python values\<close>

text \<open>
  A string is a list of characters; a character of the model stands for the code point of
  the same number (0 to 255). A float is an IEEE double: not a number, an infinity with its
  sign, or a sign, a mantissa \<open>m\<close> and a binary exponent \<open>e\<close> for the value \<open>m * 2^e\<close>.
\<close>

datatype pyfloat = NaN | Infinity bool | Finite bool nat int

text \<open>
  What \<open>json.loads\<close> returns: \<open>None\<close>, a bool, an int, a float, a str, a list, or a dict,
  given by its items in insertion order (the keys of a dict are distinct).
\<close>

datatype json =
    JNull
  | JBool bool
  | JInt int
  | JFloat pyfloat
  | JStr string
  | JArr "json list"
  | JObj "(string \<times> json) list"

text \<open>
  The exceptions of the script: the two it catches (\<open>JSONDecodeError\<close> with its message),
  the ones subscripting and iteration raise, the one \<open>print\<close> raises, \<open>sys.exit\<close>, and any
  other exception of a library call, given by its name.
\<close>

datatype exn =
    CalledProcessError "string list" int
  | JSONDecodeError string
  | KeyError string
  | TypeError
  | AttributeError
  | UnicodeEncodeError
  | SystemExit int
  | OtherError string

text \<open>
  What starting a program and waiting for it gives: it ran, with its exit status and the
  text it wrote to a captured standard output; or \<open>subprocess.run\<close> raised before it looked
  at the exit status (the program is not installed; its captured output is not text in the
  expected encoding, whatever its exit status).
\<close>

datatype run_result = Ran int string | RunError string

text \<open>
  What \<open>json.loads\<close> gives: the decoded value; \<open>JSONDecodeError\<close> with the message \<open>str(e)\<close>;
  or another exception (\<open>RecursionError\<close> on a text nested too deep, \<open>ValueError\<close> on an
  integer with more digits than the interpreter converts). The decoder is Python's, not the
  JSON grammar: it also decodes the texts \<open>NaN\<close>, \<open>Infinity\<close> and \<open>-Infinity\<close>, to floats.
\<close>

datatype loads_result = Decoded json | DecodeError string | LoadsError string

text \<open>
  The environment of one run of the script.
  \<^item> \<open>run argv\<close>: what running the program \<open>argv\<close> gives.
  \<^item> \<open>loads text\<close>: what \<open>json.loads(text)\<close> gives.
  \<^item> \<open>repr_other w\<close>: Python's \<open>repr(w)\<close> for a str that needs escapes or other quotes.
  \<^item> \<open>signal_text n\<close>: how a \<open>CalledProcessError\<close> names the signal \<open>n\<close> that ended the
    program (the \<open>repr\<close> of the member of \<open>signal.Signals\<close>, or \<open>unknown signal n\<close>); the text
    is ASCII.
  \<^item> \<open>str_other v\<close>: Python's \<open>str(v)\<close> for a float, a list or a dict.
  \<^item> \<open>encodable c\<close>: whether the encoding of standard output, with its error handler, can
    write the character \<open>c\<close>; it is asked for characters outside ASCII only.
\<close>

record env =
  run :: "string list \<Rightarrow> run_result"
  loads :: "string \<Rightarrow> loads_result"
  repr_other :: "string \<Rightarrow> string"
  signal_text :: "nat \<Rightarrow> String.literal"
  str_other :: "json \<Rightarrow> string"
  encodable :: "char \<Rightarrow> bool"

text \<open>
  The state the script changes: the texts \<open>print\<close> has written, one entry for each call (the
  stream holds each followed by a line feed), and the argument vectors given to
  \<open>subprocess.run\<close>, one entry for each call. What the utility itself writes when its output
  is not captured (in \<open>create_workspace\<close>) is not part of \<open>out\<close>.
\<close>

record state =
  out :: "string list"
  calls :: "string list list"

text \<open>
  \<open>print(text)\<close>: standard output encodes the text and writes it. Every encoding of standard
  output has the ASCII characters; a text with a character that the encoding does not have
  raises \<open>UnicodeEncodeError\<close>, and nothing of it is written. The stream itself is taken to
  accept what is written to it.
\<close>

definition is_ascii :: "char \<Rightarrow> bool" where
  "is_ascii c = (\<not> digit7 c)"

definition can_print :: "env \<Rightarrow> string \<Rightarrow> bool" where
  "can_print env text = list_all (\<lambda>c. is_ascii c \<or> encodable env c) text"

definition print :: "env \<Rightarrow> string \<Rightarrow> state \<Rightarrow> (exn + unit) \<times> state" where
  "print env text s =
     (if can_print env text then (Inr (), s\<lparr>out := out s @ [text]\<rparr>)
      else (Inl UnicodeEncodeError, s))"

subsection \<open>Library functions the script uses\<close>

text \<open>\<open>str.isspace\<close> on one character, for the code points below 256.\<close>

definition isspace :: "char \<Rightarrow> bool" where
  "isspace c =
     (let n = (of_char c :: nat)
      in (9 \<le> n \<and> n \<le> 13) \<or> (28 \<le> n \<and> n \<le> 32) \<or> n = 133 \<or> n = 160)"

text \<open>
  \<open>str.split()\<close> with no argument: the maximal runs of characters that are not whitespace.
  \<open>split_ws w cs\<close> reads \<open>cs\<close> with the word \<open>w\<close> begun.
\<close>

fun split_ws :: "string \<Rightarrow> string \<Rightarrow> string list" where
  "split_ws w [] = (if w = [] then [] else [w])"
| "split_ws w (c # cs) =
     (if isspace c then (if w = [] then split_ws [] cs else w # split_ws [] cs)
      else split_ws (w @ [c]) cs)"

definition py_split :: "string \<Rightarrow> string list" where
  "py_split text = split_ws [] text"

text \<open>
  \<open>str()\<close> of an int: its decimal digits, with a minus sign when negative. An int that
  \<open>json.loads\<close> has returned is within the interpreter's limit for conversions between int
  and str (the decoder itself converts under that limit), so the conversion does not raise.
\<close>

definition digit :: "nat \<Rightarrow> char" where
  "digit n = ''0123456789'' ! n"

fun str_nat :: "nat \<Rightarrow> string" where
  "str_nat n =
     (if n < 10 then [digit n]
      else str_nat (n div 10) @ [digit (n mod 10)])"

declare str_nat.simps [simp del]

definition str_int :: "int \<Rightarrow> string" where
  "str_int i = (if i < 0 then CHR ''-'' # str_nat (nat (- i)) else str_nat (nat i))"

text \<open>What a replacement field \<open>{v}\<close> of an f-string gives: \<open>str(v)\<close>.\<close>

definition py_str :: "env \<Rightarrow> json \<Rightarrow> string" where
  "py_str env v =
     (case v of
        JNull \<Rightarrow> ''None''
      | JBool b \<Rightarrow> (if b then ''True'' else ''False'')
      | JInt i \<Rightarrow> str_int i
      | JStr text \<Rightarrow> text
      | _ \<Rightarrow> str_other env v)"

text \<open>
  The truth value of a value, as \<open>not workspaces\<close> tests it. A float is false when it is
  zero; not a number and the infinities are true.
\<close>

definition float_bool :: "pyfloat \<Rightarrow> bool" where
  "float_bool f = (case f of Finite neg m e \<Rightarrow> m \<noteq> 0 | _ \<Rightarrow> True)"

definition py_bool :: "json \<Rightarrow> bool" where
  "py_bool v =
     (case v of
        JNull \<Rightarrow> False
      | JBool b \<Rightarrow> b
      | JInt i \<Rightarrow> i \<noteq> 0
      | JFloat f \<Rightarrow> float_bool f
      | JStr text \<Rightarrow> text \<noteq> []
      | JArr xs \<Rightarrow> xs \<noteq> []
      | JObj kvs \<Rightarrow> kvs \<noteq> [])"

text \<open>
  The elements a \<open>for\<close> loop takes from a value: those of a list, the characters of a str,
  the keys of a dict; anything else is not iterable.
\<close>

definition py_iter :: "json \<Rightarrow> exn + json list" where
  "py_iter v =
     (case v of
        JArr xs \<Rightarrow> Inr xs
      | JStr text \<Rightarrow> Inr (map (\<lambda>c. JStr [c]) text)
      | JObj kvs \<Rightarrow> Inr (map (\<lambda>kv. JStr (fst kv)) kvs)
      | _ \<Rightarrow> Inl TypeError)"

text \<open>
  \<open>v[key]\<close> with a str key: the value of the key in a dict, \<open>KeyError\<close> when the dict does
  not have it, \<open>TypeError\<close> on a value of any other type.
\<close>

definition py_getitem :: "json \<Rightarrow> string \<Rightarrow> exn + json" where
  "py_getitem v key =
     (case v of
        JObj kvs \<Rightarrow> (case map_of kvs key of None \<Rightarrow> Inl (KeyError key) | Some x \<Rightarrow> Inr x)
      | _ \<Rightarrow> Inl TypeError)"

text \<open>\<open>v.get(key, default)\<close>: only a dict has the method.\<close>

definition py_get :: "json \<Rightarrow> string \<Rightarrow> json \<Rightarrow> exn + json" where
  "py_get v key dflt =
     (case v of
        JObj kvs \<Rightarrow> (case map_of kvs key of None \<Rightarrow> Inr dflt | Some x \<Rightarrow> Inr x)
      | _ \<Rightarrow> Inl AttributeError)"

text \<open>
  \<open>subprocess.run(argv, check=True)\<close>: the call is recorded; a non-zero exit status raises
  \<open>CalledProcessError\<close>; otherwise the captured output is returned.
\<close>

definition subprocess_run :: "env \<Rightarrow> string list \<Rightarrow> state \<Rightarrow> (exn + string) \<times> state" where
  "subprocess_run env argv s =
     (let s1 = s\<lparr>calls := calls s @ [argv]\<rparr>
      in case run env argv of
           RunError err \<Rightarrow> (Inl (OtherError err), s1)
         | Ran rc text \<Rightarrow>
             if rc \<noteq> 0 then (Inl (CalledProcessError argv rc), s1) else (Inr text, s1))"

definition json_loads :: "env \<Rightarrow> string \<Rightarrow> exn + json" where
  "json_loads env text =
     (case loads env text of
        Decoded v \<Rightarrow> Inr v
      | DecodeError msg \<Rightarrow> Inl (JSONDecodeError msg)
      | LoadsError err \<Rightarrow> Inl (OtherError err))"

text \<open>
  \<open>repr\<close> of a str: a str of printable ASCII characters other than the apostrophe and the
  backslash is written between apostrophes as it is.
\<close>

definition plain :: "char \<Rightarrow> bool" where
  "plain c =
     (let n = (of_char c :: nat) in 32 \<le> n \<and> n \<le> 126 \<and> n \<noteq> 39 \<and> n \<noteq> 92)"

definition py_repr :: "env \<Rightarrow> string \<Rightarrow> string" where
  "py_repr env w =
     (if list_all plain w then [CHR 0x27] @ w @ [CHR 0x27] else repr_other env w)"

text \<open>\<open>str\<close> of a list of str: the \<open>repr\<close> of each element, between brackets.\<close>

fun comma_join :: "string list \<Rightarrow> string" where
  "comma_join [] = []"
| "comma_join [w] = w"
| "comma_join (w # v # ws) = w @ '', '' @ comma_join (v # ws)"

definition str_list :: "env \<Rightarrow> string list \<Rightarrow> string" where
  "str_list env ws = ''['' @ comma_join (map (py_repr env) ws) @ '']''"

text \<open>
  \<open>str(e)\<close> for the \<open>CalledProcessError\<close> of the command \<open>argv\<close> and the exit status \<open>rc\<close>; a
  negative status is the number of the signal that ended the program.
\<close>

definition str_called :: "env \<Rightarrow> string list \<Rightarrow> int \<Rightarrow> string" where
  "str_called env argv rc =
     ''Command '' @ [CHR 0x27] @ str_list env argv @ [CHR 0x27] @ '' '' @
     (if rc < 0 then ''died with '' @ String.explode (signal_text env (nat (- rc))) @ ''.''
      else ''returned non-zero exit status '' @ str_int rc @ ''.'')"

text \<open>Python's \<open>str(e)\<close> for the two exceptions whose text the script prints.\<close>

definition str_exn :: "env \<Rightarrow> exn \<Rightarrow> string" where
  "str_exn env e =
     (case e of
        CalledProcessError argv rc \<Rightarrow> str_called env argv rc
      | JSONDecodeError msg \<Rightarrow> msg
      | _ \<Rightarrow> [])"

subsection \<open>The script\<close>

text \<open>
  \<open>get_workspaces\<close>: the body of the \<open>try\<close> runs the query and decodes its output; the two
  \<open>except\<close> clauses print a message and return the empty list; any other exception, and an
  exception of \<open>print\<close> in a clause, leaves the function.
\<close>

definition get_workspaces :: "env \<Rightarrow> state \<Rightarrow> (exn + json) \<times> state" where
  "get_workspaces env s =
     (let cmd = ''hyprctl workspaces -j'';
          (result, s1) = subprocess_run env (py_split cmd) s
      in case (case result of Inl e \<Rightarrow> Inl e | Inr text \<Rightarrow> json_loads env text) of
           Inl (CalledProcessError argv rc) \<Rightarrow>
             (case print env (''Error getting workspaces: '' @
                     str_exn env (CalledProcessError argv rc)) s1 of
                (Inl e, s2) \<Rightarrow> (Inl e, s2)
              | (Inr u, s2) \<Rightarrow> (Inr (JArr []), s2))
         | Inl (JSONDecodeError msg) \<Rightarrow>
             (case print env (''Error parsing workspaces: '' @
                     str_exn env (JSONDecodeError msg)) s1 of
                (Inl e, s2) \<Rightarrow> (Inl e, s2)
              | (Inr u, s2) \<Rightarrow> (Inr (JArr []), s2))
         | Inl e \<Rightarrow> (Inl e, s1)
         | Inr v \<Rightarrow> (Inr v, s1))"

text \<open>
  \<open>create_workspace\<close>: the command line is formatted with the name and then split at
  whitespace; the confirmation is printed when the utility exits with status zero.
\<close>

definition create_workspace :: "env \<Rightarrow> string \<Rightarrow> state \<Rightarrow> (exn + unit) \<times> state" where
  "create_workspace env nm s =
     (let cmd = ''hyprctl dispatch workspace name:'' @ nm;
          (result, s1) = subprocess_run env (py_split cmd) s
      in case result of
           Inr _ \<Rightarrow> print env (''Created workspace: '' @ nm) s1
         | Inl (CalledProcessError argv rc) \<Rightarrow>
             print env (''Error creating workspace: '' @
               str_exn env (CalledProcessError argv rc)) s1
         | Inl e \<Rightarrow> (Inl e, s1))"

text \<open>
  The f-string of the loop body: its three fields are evaluated from left to right, and the
  first that raises ends the evaluation.
\<close>

definition ws_line :: "env \<Rightarrow> json \<Rightarrow> exn + string" where
  "ws_line env ws =
     (case py_getitem ws ''id'' of
        Inl e \<Rightarrow> Inl e
      | Inr i \<Rightarrow>
          (case py_get ws ''name'' (JStr ''Unnamed'') of
             Inl e \<Rightarrow> Inl e
           | Inr n \<Rightarrow>
               (case py_getitem ws ''windows'' of
                  Inl e \<Rightarrow> Inl e
                | Inr w \<Rightarrow>
                    Inr (''  '' @ py_str env i @ '': '' @ py_str env n @
                         '' ('' @ py_str env w @ '' windows)''))))"

text \<open>The \<open>for\<close> loop of \<open>list_workspaces\<close>: one \<open>print\<close> for each element, until one raises.\<close>

fun print_loop :: "env \<Rightarrow> json list \<Rightarrow> state \<Rightarrow> (exn + unit) \<times> state" where
  "print_loop env [] s = (Inr (), s)"
| "print_loop env (ws # rest) s =
     (case ws_line env ws of
        Inl e \<Rightarrow> (Inl e, s)
      | Inr text \<Rightarrow>
          (case print env text s of
             (Inl e, s1) \<Rightarrow> (Inl e, s1)
           | (Inr u, s1) \<Rightarrow> print_loop env rest s1))"

definition list_workspaces :: "env \<Rightarrow> state \<Rightarrow> (exn + unit) \<times> state" where
  "list_workspaces env s =
     (case get_workspaces env s of
        (Inl e, s1) \<Rightarrow> (Inl e, s1)
      | (Inr workspaces, s1) \<Rightarrow>
          if \<not> py_bool workspaces then print env ''No workspaces found'' s1
          else
            (case print env ''Active Workspaces:'' s1 of
               (Inl e, s2) \<Rightarrow> (Inl e, s2)
             | (Inr u, s2) \<Rightarrow>
                 (case py_iter workspaces of
                    Inl e \<Rightarrow> (Inl e, s2)
                  | Inr items \<Rightarrow> print_loop env items s2)))"

text \<open>
  The namespace \<open>parse_args\<close> returns: \<open>action\<close> is one of the two choices, \<open>name\<close> is \<open>None\<close>
  without the option \<open>--name\<close>. The model of \<open>main\<close> starts there: a command line that
  argparse does not accept ends the process inside \<open>parse_args\<close>, before the script acts.
\<close>

datatype action = ListAction | CreateAction

record args =
  action :: action
  name :: "string option"

text \<open>The branch of \<open>main\<close> for a missing name: the message, then \<open>sys.exit(1)\<close>.\<close>

definition name_required :: "env \<Rightarrow> state \<Rightarrow> (exn + unit) \<times> state" where
  "name_required env s =
     (case print env ''Error: --name required for create action'' s of
        (Inl e, s1) \<Rightarrow> (Inl e, s1)
      | (Inr u, s1) \<Rightarrow> (Inl (SystemExit 1), s1))"

definition main :: "env \<Rightarrow> args \<Rightarrow> state \<Rightarrow> (exn + unit) \<times> state" where
  "main env a s =
     (case action a of
        ListAction \<Rightarrow> list_workspaces env s
      | CreateAction \<Rightarrow>
          (case name a of
             None \<Rightarrow> name_required env s
           | Some nm \<Rightarrow> if nm = [] then name_required env s else create_workspace env nm s))"

text \<open>
  The exit status of the process: 0 when \<open>main\<close> returns, the argument of \<open>sys.exit\<close>, and 1
  when any other exception leaves \<open>main\<close>.
\<close>

fun exit_status :: "exn + unit \<Rightarrow> int" where
  "exit_status (Inr _) = 0"
| "exit_status (Inl (SystemExit n)) = n"
| "exit_status (Inl _) = 1"

definition s0 :: state where
  "s0 = \<lparr>out = [], calls = []\<rparr>"

subsection \<open>The words of the specification\<close>

text \<open>
  The workspace record of the specification's data model: an integer \<open>id\<close>, an optional
  \<open>name\<close> and an integer count of \<open>windows\<close>.
\<close>

record ws_record =
  ws_id :: int
  ws_name :: "string option"
  ws_windows :: int

text \<open>
  A decoded element is the record \<open>r\<close>: a dict whose \<open>id\<close> and \<open>windows\<close> are the integers of
  \<open>r\<close> and whose \<open>name\<close> is the string of \<open>r\<close>, or is absent when \<open>r\<close> has none. The dict may
  have other keys.
\<close>

definition is_record :: "json \<Rightarrow> ws_record \<Rightarrow> bool" where
  "is_record v r =
     (case v of
        JObj kvs \<Rightarrow>
          map_of kvs ''id'' = Some (JInt (ws_id r)) \<and>
          map_of kvs ''windows'' = Some (JInt (ws_windows r)) \<and>
          map_of kvs ''name'' = map_option JStr (ws_name r)
      | _ \<Rightarrow> False)"

text \<open>
  The line the specification gives for a record: \<open>  <id>: <name> (<windows> windows)\<close>, with
  the name \<open>Unnamed\<close> for a record that has none.
\<close>

definition shown_name :: "ws_record \<Rightarrow> string" where
  "shown_name r = (case ws_name r of None \<Rightarrow> ''Unnamed'' | Some nm \<Rightarrow> nm)"

definition record_line :: "ws_record \<Rightarrow> string" where
  "record_line r =
     ''  '' @ str_int (ws_id r) @ '': '' @ shown_name r @
     '' ('' @ str_int (ws_windows r) @ '' windows)''"

text \<open>
  The expected shape of the query's output: an array of objects that each have the required
  fields \<open>id\<close> and \<open>windows\<close>.
\<close>

definition has_required_fields :: "json \<Rightarrow> bool" where
  "has_required_fields v =
     (case v of
        JObj kvs \<Rightarrow> map_of kvs ''id'' \<noteq> None \<and> map_of kvs ''windows'' \<noteq> None
      | _ \<Rightarrow> False)"

definition expected_shape :: "json \<Rightarrow> bool" where
  "expected_shape v = (case v of JArr xs \<Rightarrow> list_all has_required_fields xs | _ \<Rightarrow> False)"

text \<open>
  Whether standard output can write the line of a decoded element; an element without the
  required fields has no line.
\<close>

definition line_printable :: "env \<Rightarrow> json \<Rightarrow> bool" where
  "line_printable env x =
     (case ws_line env x of Inl e \<Rightarrow> True | Inr text \<Rightarrow> can_print env text)"

text \<open>
  Whether standard output can write the line of every element of a decoded array; a value
  that is not an array has no lines.
\<close>

definition lines_printable :: "env \<Rightarrow> json \<Rightarrow> bool" where
  "lines_printable env v =
     (case v of JArr xs \<Rightarrow> list_all (line_printable env) xs | _ \<Rightarrow> True)"

text \<open>
  Valid JSON, as far as the first character decides (RFC 8259): a JSON text is a value
  between optional whitespace, and a value begins with a brace, a bracket, a quotation mark,
  a minus sign, a digit, or the first letter of \<open>true\<close>, \<open>false\<close> or \<open>null\<close>. A text that
  \<open>begins_json_value\<close> rejects is not valid JSON.
\<close>

definition json_space :: "char \<Rightarrow> bool" where
  "json_space c = (c = CHR '' '' \<or> c = CHR 0x09 \<or> c = CHR 0x0A \<or> c = CHR 0x0D)"

definition begins_json_value :: "string \<Rightarrow> bool" where
  "begins_json_value text =
     (case dropWhile json_space text of
        [] \<Rightarrow> False
      | c # cs \<Rightarrow> c \<in> set (CHR 0x22 # ''{[-0123456789tfn''))"

text \<open>
  An environment for examples: the utility always ends the same way, whatever the command,
  \<open>json.loads\<close> always gives the same result, and standard output is an ASCII stream.
\<close>

definition example_env :: "run_result \<Rightarrow> loads_result \<Rightarrow> env" where
  "example_env r l =
     \<lparr>run = (\<lambda>argv. r), loads = (\<lambda>text. l),
      repr_other = (\<lambda>w. []),
      signal_text = (\<lambda>n. String.implode ''unknown signal''),
      str_other = (\<lambda>v. []), encodable = (\<lambda>c. False)\<rparr>"

section \<open>Properties\<close>

subsection \<open>Printing\<close>

lemma can_print_ascii: "list_all is_ascii text \<Longrightarrow> can_print env text"
  by (simp add: can_print_def list_all_iff)

lemma print_ok:
  "can_print env text \<Longrightarrow> print env text s = (Inr (), s\<lparr>out := out s @ [text]\<rparr>)"
  by (simp add: print_def)

lemma print_ascii:
  "list_all is_ascii text \<Longrightarrow> print env text s = (Inr (), s\<lparr>out := out s @ [text]\<rparr>)"
  by (simp add: print_ok can_print_ascii)

lemma print_refused:
  "\<not> can_print env text \<Longrightarrow> print env text s = (Inl UnicodeEncodeError, s)"
  by (simp add: print_def)

lemma digit_in_digits: "n < 10 \<Longrightarrow> digit n \<in> set ''0123456789''"
  unfolding digit_def by (rule nth_mem) simp

lemma str_nat_digits: "set (str_nat n) \<subseteq> set ''0123456789''"
proof (induction n rule: str_nat.induct)
  case (1 n)
  show ?case
  proof (cases "n < 10")
    case True
    then show ?thesis
      using digit_in_digits [of n] by (subst str_nat.simps) simp
  next
    case False
    then show ?thesis
      using 1 digit_in_digits [of "n mod 10"] by (subst str_nat.simps) simp
  qed
qed

lemma str_int_chars: "set (str_int i) \<subseteq> set ''-0123456789''"
proof (cases "i < 0")
  case True
  with str_nat_digits [of "nat (- i)"] show ?thesis
    by (simp add: str_int_def subset_insertI2)
next
  case False
  with str_nat_digits [of "nat i"] show ?thesis
    by (simp add: str_int_def subset_insertI2)
qed

lemma str_int_ascii: "list_all is_ascii (str_int i)"
proof -
  have "list_all is_ascii ''-0123456789''"
    by (simp add: is_ascii_def)
  with str_int_chars [of i] show ?thesis
    unfolding list_all_iff by blast
qed

lemma str_int_no_line_feed: "CHR 0x0A \<notin> set (str_int i)"
proof -
  have "CHR 0x0A \<notin> set ''-0123456789''"
    by simp
  with str_int_chars [of i] show ?thesis
    by blast
qed

lemma explode_ascii: "list_all is_ascii (String.explode t)"
  using String.explode [of t] by (simp add: list_all_iff is_ascii_def)

subsection \<open>The argument vectors and the failure detail\<close>

lemma query_argv: "py_split ''hyprctl workspaces -j'' = [''hyprctl'', ''workspaces'', ''-j'']"
  by (simp add: py_split_def isspace_def)

lemma dispatch_argv:
  "py_split (''hyprctl dispatch workspace name:'' @ nm) =
     [''hyprctl'', ''dispatch'', ''workspace''] @ split_ws ''name:'' nm"
  by (simp add: py_split_def isspace_def)

lemma split_ws_no_space:
  "\<forall>c \<in> set cs. \<not> isspace c \<Longrightarrow> w @ cs \<noteq> [] \<Longrightarrow> split_ws w cs = [w @ cs]"
  by (induction cs arbitrary: w) auto

lemma py_repr_plain: "list_all plain w \<Longrightarrow> py_repr env w = [CHR 0x27] @ w @ [CHR 0x27]"
  by (simp add: py_repr_def)

lemma plain_words:
  "list_all plain ''hyprctl''" "list_all plain ''workspaces''" "list_all plain ''-j''"
  by (simp_all add: plain_def)

lemma str_list_query:
  "str_list env [''hyprctl'', ''workspaces'', ''-j''] =
     ''['' @ [CHR 0x27] @ ''hyprctl'' @ [CHR 0x27] @ '', '' @
     [CHR 0x27] @ ''workspaces'' @ [CHR 0x27] @ '', '' @ [CHR 0x27] @ ''-j'' @ [CHR 0x27] @ '']''"
  by (simp add: str_list_def plain_words [THEN py_repr_plain])

lemma str_list_query_ascii: "list_all is_ascii (str_list env [''hyprctl'', ''workspaces'', ''-j''])"
  by (simp add: str_list_query is_ascii_def)

text \<open>The failure detail of the query is ASCII text, whatever the exit status.\<close>

lemma str_called_query_ascii:
  "list_all is_ascii (str_called env [''hyprctl'', ''workspaces'', ''-j''] rc)"
proof -
  have "list_all is_ascii ''Command ''" "list_all is_ascii [CHR 0x27]" "list_all is_ascii '' ''"
    "list_all is_ascii ''died with ''" "list_all is_ascii ''.''"
    "list_all is_ascii ''returned non-zero exit status ''"
    by (simp_all add: is_ascii_def)
  with str_int_ascii [of rc] explode_ascii [of "signal_text env (nat (- rc))"]
    str_list_query_ascii [of env]
  show ?thesis
    unfolding str_called_def by (simp only: list_all_append split: if_split) simp
qed

lemma str_called_query_1:
  "str_called env [''hyprctl'', ''workspaces'', ''-j''] 1 =
     ''Command '' @ [CHR 0x27] @ ''['' @ [CHR 0x27] @ ''hyprctl'' @ [CHR 0x27] @ '', '' @
     [CHR 0x27] @ ''workspaces'' @ [CHR 0x27] @ '', '' @ [CHR 0x27] @ ''-j'' @ [CHR 0x27] @
     '']'' @ [CHR 0x27] @ '' returned non-zero exit status 1.''"
  by (simp add: str_called_def str_list_query str_int_def str_nat.simps digit_def)

lemma print_getting:
  "print env (''Error getting workspaces: '' @ str_called env [''hyprctl'', ''workspaces'', ''-j''] rc) s =
     (Inr (), s\<lparr>out := out s @ [''Error getting workspaces: '' @
        str_called env [''hyprctl'', ''workspaces'', ''-j''] rc]\<rparr>)"
proof (rule print_ascii)
  have "list_all is_ascii ''Error getting workspaces: ''"
    by (simp add: is_ascii_def)
  with str_called_query_ascii [of env rc]
  show "list_all is_ascii (''Error getting workspaces: '' @
          str_called env [''hyprctl'', ''workspaces'', ''-j''] rc)"
    by (simp only: list_all_append simp_thms)
qed

lemma print_fixed:
  "print env ''No workspaces found'' s = (Inr (), s\<lparr>out := out s @ [''No workspaces found'']\<rparr>)"
  "print env ''Active Workspaces:'' s = (Inr (), s\<lparr>out := out s @ [''Active Workspaces:'']\<rparr>)"
  "print env ''Error: --name required for create action'' s =
     (Inr (), s\<lparr>out := out s @ [''Error: --name required for create action'']\<rparr>)"
  by (rule print_ascii, simp add: is_ascii_def)+

lemma print_calls: "calls (snd (print env text s)) = calls s"
  by (simp add: print_def)

lemma print_status:
  "fst (print env text s) = (if can_print env text then Inr () else Inl UnicodeEncodeError)"
  by (simp add: print_def)

subsection \<open>What \<open>get_workspaces\<close> returns\<close>

lemma get_workspaces_failed:
  assumes "run env [''hyprctl'', ''workspaces'', ''-j''] = Ran rc text" and "rc \<noteq> 0"
  shows "get_workspaces env s =
           (Inr (JArr []),
            s\<lparr>calls := calls s @ [[''hyprctl'', ''workspaces'', ''-j'']],
              out := out s @ [''Error getting workspaces: '' @
                str_called env [''hyprctl'', ''workspaces'', ''-j''] rc]\<rparr>)"
  using assms
  by (simp add: get_workspaces_def query_argv subprocess_run_def str_exn_def
      print_getting [simplified])

lemma get_workspaces_undecodable:
  assumes "run env [''hyprctl'', ''workspaces'', ''-j''] = Ran 0 text"
    and "loads env text = DecodeError msg"
  shows "get_workspaces env s =
           (if can_print env (''Error parsing workspaces: '' @ msg)
            then (Inr (JArr []),
                  s\<lparr>calls := calls s @ [[''hyprctl'', ''workspaces'', ''-j'']],
                    out := out s @ [''Error parsing workspaces: '' @ msg]\<rparr>)
            else (Inl UnicodeEncodeError,
                  s\<lparr>calls := calls s @ [[''hyprctl'', ''workspaces'', ''-j'']]\<rparr>))"
  using assms
  by (simp add: get_workspaces_def query_argv subprocess_run_def print_def str_exn_def
      json_loads_def)

lemma get_workspaces_decoded:
  assumes "run env [''hyprctl'', ''workspaces'', ''-j''] = Ran 0 text"
    and "loads env text = Decoded v"
  shows "get_workspaces env s =
           (Inr v, s\<lparr>calls := calls s @ [[''hyprctl'', ''workspaces'', ''-j'']]\<rparr>)"
  using assms
  by (simp add: get_workspaces_def query_argv subprocess_run_def json_loads_def)

lemma get_workspaces_run_error:
  assumes "run env [''hyprctl'', ''workspaces'', ''-j''] = RunError err"
  shows "get_workspaces env s =
           (Inl (OtherError err), s\<lparr>calls := calls s @ [[''hyprctl'', ''workspaces'', ''-j'']]\<rparr>)"
  using assms
  by (simp add: get_workspaces_def query_argv subprocess_run_def)

lemma get_workspaces_loads_error:
  assumes "run env [''hyprctl'', ''workspaces'', ''-j''] = Ran 0 text"
    and "loads env text = LoadsError err"
  shows "get_workspaces env s =
           (Inl (OtherError err), s\<lparr>calls := calls s @ [[''hyprctl'', ''workspaces'', ''-j'']]\<rparr>)"
  using assms
  by (simp add: get_workspaces_def query_argv subprocess_run_def json_loads_def)

subsection \<open>The loop over the decoded elements\<close>

lemma ws_line_record: "is_record v r \<Longrightarrow> ws_line env v = Inr (record_line r)"
  by (cases v; cases "ws_name r")
     (auto simp: is_record_def ws_line_def record_line_def shown_name_def py_getitem_def
       py_get_def py_str_def)

lemma print_loop_records:
  "list_all2 is_record xs rs \<Longrightarrow>
     print_loop env xs s =
       (if list_all (\<lambda>r. can_print env (record_line r)) rs then Inr ()
        else Inl UnicodeEncodeError,
        s\<lparr>out := out s @
          map record_line (takeWhile (\<lambda>r. can_print env (record_line r)) rs)\<rparr>)"
proof (induction xs rs arbitrary: s rule: list_all2_induct)
  case Nil
  show ?case by simp
next
  case (Cons x xs r rs)
  show ?case
  proof (cases "can_print env (record_line r)")
    case True
    with Cons show ?thesis
      by (simp add: ws_line_record print_ok)
  next
    case False
    with Cons show ?thesis
      by (simp add: ws_line_record print_refused)
  qed
qed

lemma record_line_line_feed:
  "(CHR 0x0A \<in> set (record_line r)) = (CHR 0x0A \<in> set (shown_name r))"
  using str_int_no_line_feed [of "ws_id r"] str_int_no_line_feed [of "ws_windows r"]
  by (simp add: record_line_def)

lemma ws_line_required:
  "has_required_fields v \<Longrightarrow> \<exists>ln. ws_line env v = Inr ln"
  by (cases v) (auto simp: has_required_fields_def ws_line_def py_getitem_def py_get_def
      split: option.splits)

lemma ws_line_not_required:
  "\<not> has_required_fields v \<Longrightarrow>
     ws_line env v = Inl TypeError \<or> ws_line env v = Inl (KeyError ''id'') \<or>
     ws_line env v = Inl (KeyError ''windows'')"
  by (cases v) (auto simp: has_required_fields_def ws_line_def py_getitem_def py_get_def
      split: option.splits)

lemma print_loop_done:
  "list_all has_required_fields xs \<Longrightarrow> list_all (line_printable env) xs \<Longrightarrow>
     fst (print_loop env xs s) = Inr ()"
proof (induction xs arbitrary: s)
  case Nil
  show ?case by simp
next
  case (Cons x xs)
  from Cons.prems obtain ln where ln: "ws_line env x = Inr ln"
    using ws_line_required by fastforce
  with Cons.prems have "can_print env ln"
    by (simp add: line_printable_def)
  with ln Cons show ?case
    by (simp add: print_ok)
qed

lemma print_loop_raises:
  "\<not> (list_all has_required_fields xs \<and> list_all (line_printable env) xs) \<Longrightarrow>
     fst (print_loop env xs s) = Inl TypeError \<or>
     fst (print_loop env xs s) = Inl (KeyError ''id'') \<or>
     fst (print_loop env xs s) = Inl (KeyError ''windows'') \<or>
     fst (print_loop env xs s) = Inl UnicodeEncodeError"
proof (induction xs arbitrary: s)
  case Nil
  then show ?case by simp
next
  case (Cons x xs)
  show ?case
  proof (cases "has_required_fields x")
    case False
    from ws_line_not_required [OF False, of env] show ?thesis by auto
  next
    case True
    then obtain ln where ln: "ws_line env x = Inr ln"
      using ws_line_required by blast
    show ?thesis
    proof (cases "can_print env ln")
      case False
      with ln show ?thesis by (simp add: print_refused)
    next
      case yes: True
      with ln have "line_printable env x"
        by (simp add: line_printable_def)
      with True Cons.prems
      have "\<not> (list_all has_required_fields xs \<and> list_all (line_printable env) xs)"
        by simp
      from Cons.IH [OF this] ln yes show ?thesis
        by (simp add: print_ok)
    qed
  qed
qed

lemma print_loop_chars:
  "cs \<noteq> [] \<Longrightarrow> fst (print_loop env (map (\<lambda>c. JStr [c]) cs) s) = Inl TypeError"
  by (cases cs) (simp_all add: ws_line_def py_getitem_def)

lemma print_loop_keys:
  "kvs \<noteq> [] \<Longrightarrow> fst (print_loop env (map (\<lambda>kv. JStr (fst kv)) kvs) s) = Inl TypeError"
  by (cases kvs) (simp_all add: ws_line_def py_getitem_def)

subsection \<open>What \<open>list_workspaces\<close> and \<open>create_workspace\<close> do\<close>

lemma list_workspaces_decoded:
  assumes "run env [''hyprctl'', ''workspaces'', ''-j''] = Ran 0 text"
    and "loads env text = Decoded v"
  shows "list_workspaces env s =
     (if \<not> py_bool v
      then (Inr (), s\<lparr>calls := calls s @ [[''hyprctl'', ''workspaces'', ''-j'']],
                      out := out s @ [''No workspaces found'']\<rparr>)
      else (case py_iter v of
              Inl e \<Rightarrow>
                (Inl e, s\<lparr>calls := calls s @ [[''hyprctl'', ''workspaces'', ''-j'']],
                          out := out s @ [''Active Workspaces:'']\<rparr>)
            | Inr items \<Rightarrow>
                print_loop env items
                  (s\<lparr>calls := calls s @ [[''hyprctl'', ''workspaces'', ''-j'']],
                     out := out s @ [''Active Workspaces:'']\<rparr>)))"
  by (simp add: list_workspaces_def get_workspaces_decoded [OF assms] Let_def print_fixed)

lemma list_workspaces_unexpected:
  assumes "run env [''hyprctl'', ''workspaces'', ''-j''] = Ran 0 text"
    and "loads env text = Decoded v"
    and "\<not> (expected_shape v \<and> lines_printable env v)" and "py_bool v"
  shows "fst (list_workspaces env s) = Inl TypeError \<or>
         fst (list_workspaces env s) = Inl (KeyError ''id'') \<or>
         fst (list_workspaces env s) = Inl (KeyError ''windows'') \<or>
         fst (list_workspaces env s) = Inl UnicodeEncodeError"
proof (cases v)
  case (JArr xs)
  with assms(3)
  have "\<not> (list_all has_required_fields xs \<and> list_all (line_printable env) xs)"
    by (simp add: expected_shape_def lines_printable_def)
  from print_loop_raises [OF this] JArr assms(4) show ?thesis
    by (simp add: list_workspaces_decoded [OF assms(1,2)] py_iter_def)
next
  case (JStr cs)
  with assms(4) show ?thesis
    by (simp add: list_workspaces_decoded [OF assms(1,2)] py_iter_def py_bool_def
        print_loop_chars)
next
  case (JObj kvs)
  with assms(4) show ?thesis
    by (simp add: list_workspaces_decoded [OF assms(1,2)] py_iter_def py_bool_def
        print_loop_keys)
qed (use assms(4) in \<open>simp_all add: list_workspaces_decoded [OF assms(1,2)] py_iter_def py_bool_def\<close>)

lemma list_workspaces_expected:
  assumes "run env [''hyprctl'', ''workspaces'', ''-j''] = Ran 0 text"
    and "loads env text = Decoded v"
    and "expected_shape v" and "lines_printable env v"
  shows "fst (list_workspaces env s) = Inr ()"
proof (cases v)
  case (JArr xs)
  with assms(3,4) have "list_all has_required_fields xs" "list_all (line_printable env) xs"
    by (simp_all add: expected_shape_def lines_printable_def)
  then have "fst (print_loop env xs s') = Inr ()" for s'
    by (rule print_loop_done)
  with JArr show ?thesis
    by (simp add: list_workspaces_decoded [OF assms(1,2)] py_iter_def py_bool_def)
qed (use assms(3) in \<open>simp_all add: expected_shape_def\<close>)

lemma list_workspaces_falsy:
  assumes "run env [''hyprctl'', ''workspaces'', ''-j''] = Ran 0 text"
    and "loads env text = Decoded v"
    and "\<not> py_bool v"
  shows "fst (list_workspaces env s) = Inr () \<and>
         out (snd (list_workspaces env s)) = out s @ [''No workspaces found'']"
  using assms(3) by (simp add: list_workspaces_decoded [OF assms(1,2)])

lemma list_workspaces_failed:
  assumes "run env [''hyprctl'', ''workspaces'', ''-j''] = Ran rc text" and "rc \<noteq> 0"
  shows "list_workspaces env s =
           (Inr (),
            s\<lparr>calls := calls s @ [[''hyprctl'', ''workspaces'', ''-j'']],
              out := out s @ [''Error getting workspaces: '' @
                str_called env [''hyprctl'', ''workspaces'', ''-j''] rc,
                ''No workspaces found'']\<rparr>)"
  by (simp add: list_workspaces_def get_workspaces_failed [OF assms] py_bool_def print_fixed)

lemma list_workspaces_undecodable:
  assumes "run env [''hyprctl'', ''workspaces'', ''-j''] = Ran 0 text"
    and "loads env text = DecodeError msg"
  shows "list_workspaces env s =
           (if can_print env (''Error parsing workspaces: '' @ msg)
            then (Inr (),
                  s\<lparr>calls := calls s @ [[''hyprctl'', ''workspaces'', ''-j'']],
                    out := out s @ [''Error parsing workspaces: '' @ msg,
                                    ''No workspaces found'']\<rparr>)
            else (Inl UnicodeEncodeError,
                  s\<lparr>calls := calls s @ [[''hyprctl'', ''workspaces'', ''-j'']]\<rparr>))"
  by (simp add: list_workspaces_def get_workspaces_undecodable [OF assms] py_bool_def
      print_fixed)

lemma list_workspaces_run_error:
  assumes "run env [''hyprctl'', ''workspaces'', ''-j''] = RunError err"
  shows "fst (list_workspaces env s) = Inl (OtherError err)"
  by (simp add: list_workspaces_def get_workspaces_run_error [OF assms])

lemma list_workspaces_loads_error:
  assumes "run env [''hyprctl'', ''workspaces'', ''-j''] = Ran 0 text"
    and "loads env text = LoadsError err"
  shows "fst (list_workspaces env s) = Inl (OtherError err)"
  by (simp add: list_workspaces_def get_workspaces_loads_error [OF assms])

lemma name_required_result:
  "name_required env s =
     (Inl (SystemExit 1), s\<lparr>out := out s @ [''Error: --name required for create action'']\<rparr>)"
  by (simp add: name_required_def print_fixed)

lemma create_workspace_result:
  "create_workspace env nm s =
     (let argv = py_split (''hyprctl dispatch workspace name:'' @ nm);
          s1 = s\<lparr>calls := calls s @ [argv]\<rparr>
      in case run env argv of
           RunError err \<Rightarrow> (Inl (OtherError err), s1)
         | Ran rc text \<Rightarrow>
             if rc = 0 then print env (''Created workspace: '' @ nm) s1
             else print env (''Error creating workspace: '' @ str_called env argv rc) s1)"
  by (simp add: create_workspace_def subprocess_run_def str_exn_def Let_def
      split: run_result.splits)

text \<open>\<open>create_workspace\<close> starts the utility once, whatever the name and the outcome.\<close>

lemma create_workspace_calls:
  "calls (snd (create_workspace env nm s)) =
     calls s @ [py_split (''hyprctl dispatch workspace name:'' @ nm)]"
  by (simp add: create_workspace_result Let_def print_calls split: run_result.splits)

text \<open>A name without whitespace is carried as the one argument \<open>name:<name>\<close>.\<close>

lemma create_workspace_no_space:
  assumes "\<forall>c \<in> set nm. \<not> isspace c"
  shows "calls (snd (create_workspace env nm s)) =
           calls s @ [[''hyprctl'', ''dispatch'', ''workspace'', ''name:'' @ nm]]"
  using split_ws_no_space [OF assms, of "''name:''"]
  by (subst create_workspace_calls, subst dispatch_argv) simp

subsection \<open>The exit status\<close>

lemma list_exit_status:
  "exit_status (fst (list_workspaces env s)) =
     (if (case run env [''hyprctl'', ''workspaces'', ''-j''] of
            RunError err \<Rightarrow> True
          | Ran rc text \<Rightarrow>
              rc = 0 \<and>
              (case loads env text of
                 Decoded v \<Rightarrow> py_bool v \<and> \<not> (expected_shape v \<and> lines_printable env v)
               | DecodeError msg \<Rightarrow> \<not> can_print env (''Error parsing workspaces: '' @ msg)
               | LoadsError err \<Rightarrow> True))
      then 1 else 0)"
proof (cases "run env [''hyprctl'', ''workspaces'', ''-j'']")
  case (RunError err)
  with list_workspaces_run_error [OF RunError, of s] show ?thesis by simp
next
  case (Ran rc outp)
  show ?thesis
  proof (cases "rc = 0")
    case False
    with Ran list_workspaces_failed [of env rc outp s] show ?thesis by simp
  next
    case True
    with Ran have r: "run env [''hyprctl'', ''workspaces'', ''-j''] = Ran 0 outp" by simp
    show ?thesis
    proof (cases "loads env outp")
      case (DecodeError msg)
      with r list_workspaces_undecodable [OF r DecodeError, of s] show ?thesis by simp
    next
      case (LoadsError err)
      with r list_workspaces_loads_error [OF r LoadsError, of s] show ?thesis by simp
    next
      case (Decoded v)
      consider "\<not> py_bool v" | "expected_shape v \<and> lines_printable env v"
        | "py_bool v" "\<not> (expected_shape v \<and> lines_printable env v)"
        by blast
      then show ?thesis
      proof cases
        case 1
        with r Decoded list_workspaces_falsy [OF r Decoded 1, of s] show ?thesis by simp
      next
        case 2
        with r Decoded list_workspaces_expected [OF r Decoded, of s] show ?thesis by simp
      next
        case 3
        with r Decoded list_workspaces_unexpected [OF r Decoded 3(2,1), of s] show ?thesis
          by auto
      qed
    qed
  qed
qed

lemma create_exit_status:
  "exit_status (fst (create_workspace env nm s)) =
     (if (case run env (py_split (''hyprctl dispatch workspace name:'' @ nm)) of
            RunError err \<Rightarrow> True
          | Ran rc text \<Rightarrow>
              \<not> can_print env
                 (if rc = 0 then ''Created workspace: '' @ nm
                  else ''Error creating workspace: '' @
                    str_called env (py_split (''hyprctl dispatch workspace name:'' @ nm)) rc))
      then 1 else 0)"
  by (simp add: create_workspace_result Let_def print_status split: run_result.splits)

subsection \<open>The example environment\<close>

lemma example_env_simps:
  "run (example_env r l) argv = r"
  "loads (example_env r l) text = l"
  "encodable (example_env r l) c = False"
  by (simp_all add: example_env_def)

lemma can_print_example:
  "can_print (example_env r l) text = list_all is_ascii text"
  by (simp add: can_print_def example_env_simps)

section \<open>The claims\<close>

subsection \<open>C1: one formatted text for each record\<close>

text \<open>
  C1, as amended. When the query exits with status zero and \<open>json.loads\<close> decodes its output
  to a non-empty array of workspace records (each element an object with an integer \<open>id\<close>,
  an integer \<open>windows\<close> and optionally a string \<open>name\<close>), \<open>list_workspaces\<close> prints the
  header \<open>Active Workspaces:\<close> and then, for each record in the order of the array, the text
  \<open>  <id>: <name> (<windows> windows)\<close>, where the name is \<open>Unnamed\<close> when the record has
  none. It does so as long as standard output can encode the text (it always can when the
  name is ASCII): at the first record whose text it cannot encode, \<open>print\<close> raises
  \<open>UnicodeEncodeError\<close>, nothing more is printed and the exception leaves
  \<open>list_workspaces\<close>. The text of a record is a single line exactly when the name has no
  line feed.
\<close>

theorem list_workspaces_lines:
  assumes "run env [''hyprctl'', ''workspaces'', ''-j''] = Ran 0 text"
    and "loads env text = Decoded (JArr xs)"
    and "list_all2 is_record xs rs"
    and "xs \<noteq> []"
  shows "out (snd (list_workspaces env s)) =
           out s @ ''Active Workspaces:'' #
             map record_line (takeWhile (\<lambda>r. can_print env (record_line r)) rs) \<and>
         fst (list_workspaces env s) =
           (if list_all (\<lambda>r. can_print env (record_line r)) rs then Inr ()
            else Inl UnicodeEncodeError) \<and>
         list_all (\<lambda>r. (CHR 0x0A \<in> set (record_line r)) = (CHR 0x0A \<in> set (shown_name r))) rs"
  using assms
  by (simp add: list_workspaces_decoded [OF assms(1,2)] py_bool_def py_iter_def
      print_loop_records record_line_line_feed list_all_iff)

text \<open>
  The example scenario of the specification, and an array whose first record has a name
  with a character outside ASCII, on an ASCII standard output.
\<close>

theorem list_workspaces_lines_witness:
  \<open>list_all2 is_record
     [JObj [(''id'', JInt 0), (''name'', JStr ''main''), (''windows'', JInt 3)],
      JObj [(''id'', JInt 1), (''windows'', JInt 0)]]
     [\<lparr>ws_id = 0, ws_name = Some ''main'', ws_windows = 3\<rparr>,
      \<lparr>ws_id = 1, ws_name = None, ws_windows = 0\<rparr>] \<and>
   fst (list_workspaces
     (example_env (Ran 0 ''[{"id":0,"name":"main","windows":3},{"id":1,"windows":0}]'')
          (Decoded (JArr
             [JObj [(''id'', JInt 0), (''name'', JStr ''main''), (''windows'', JInt 3)],
              JObj [(''id'', JInt 1), (''windows'', JInt 0)]]))) s0) = Inr () \<and>
   out (snd (list_workspaces
     (example_env (Ran 0 ''[{"id":0,"name":"main","windows":3},{"id":1,"windows":0}]'')
          (Decoded (JArr
             [JObj [(''id'', JInt 0), (''name'', JStr ''main''), (''windows'', JInt 3)],
              JObj [(''id'', JInt 1), (''windows'', JInt 0)]]))) s0)) =
     [''Active Workspaces:'', ''  0: main (3 windows)'', ''  1: Unnamed (0 windows)''] \<and>
   fst (list_workspaces
     (example_env (Ran 0 [])
          (Decoded (JArr
             [JObj [(''id'', JInt 2), (''name'', JStr [CHR ''c'', CHR ''a'', CHR ''f'', CHR 0xE9]),
                    (''windows'', JInt 1)],
              JObj [(''id'', JInt 3), (''windows'', JInt 0)]]))) s0) = Inl UnicodeEncodeError \<and>
   out (snd (list_workspaces
     (example_env (Ran 0 [])
          (Decoded (JArr
             [JObj [(''id'', JInt 2), (''name'', JStr [CHR ''c'', CHR ''a'', CHR ''f'', CHR 0xE9]),
                    (''windows'', JInt 1)],
              JObj [(''id'', JInt 3), (''windows'', JInt 0)]]))) s0)) =
     [''Active Workspaces:'']\<close>
proof -
  let ?xs = "[JObj [(''id'', JInt 0), (''name'', JStr ''main''), (''windows'', JInt 3)],
              JObj [(''id'', JInt 1), (''windows'', JInt 0)]]"
  let ?rs = "[\<lparr>ws_id = 0, ws_name = Some ''main'', ws_windows = 3\<rparr>,
      \<lparr>ws_id = 1, ws_name = None, ws_windows = 0\<rparr>]"
  let ?text = \<open>''[{"id":0,"name":"main","windows":3},{"id":1,"windows":0}]''\<close>
  let ?env = "example_env (Ran 0 ?text) (Decoded (JArr ?xs))"
  let ?ys = "[JObj [(''id'', JInt 2), (''name'', JStr [CHR ''c'', CHR ''a'', CHR ''f'', CHR 0xE9]),
                    (''windows'', JInt 1)],
              JObj [(''id'', JInt 3), (''windows'', JInt 0)]]"
  let ?qs = "[\<lparr>ws_id = 2, ws_name = Some [CHR ''c'', CHR ''a'', CHR ''f'', CHR 0xE9],
               ws_windows = 1\<rparr>,
              \<lparr>ws_id = 3, ws_name = None, ws_windows = 0\<rparr>]"
  let ?env2 = "example_env (Ran 0 []) (Decoded (JArr ?ys))"
  have r: "run ?env [''hyprctl'', ''workspaces'', ''-j''] = Ran 0 ?text"
    and l: "loads ?env ?text = Decoded (JArr ?xs)"
    and r2: "run ?env2 [''hyprctl'', ''workspaces'', ''-j''] = Ran 0 []"
    and l2: "loads ?env2 [] = Decoded (JArr ?ys)"
    by (simp_all add: example_env_simps)
  have a: "list_all2 is_record ?xs ?rs" and a2: "list_all2 is_record ?ys ?qs"
    by (simp_all add: is_record_def)
  have n: "?xs \<noteq> []" and n2: "?ys \<noteq> []"
    by simp_all
  have lines: "map record_line ?rs = [''  0: main (3 windows)'', ''  1: Unnamed (0 windows)'']"
    by (simp add: record_line_def shown_name_def str_int_def str_nat.simps digit_def)
  have p: "list_all (\<lambda>r. can_print ?env (record_line r)) ?rs"
    using lines by (simp add: can_print_example is_ascii_def)
  then have t: "takeWhile (\<lambda>r. can_print ?env (record_line r)) ?rs = ?rs"
    by (simp add: takeWhile_eq_all_conv list_all_iff)
  have p2: "\<not> can_print ?env2 (record_line \<lparr>ws_id = 2,
              ws_name = Some [CHR ''c'', CHR ''a'', CHR ''f'', CHR 0xE9], ws_windows = 1\<rparr>)"
    by (simp add: can_print_example record_line_def shown_name_def is_ascii_def)
  from list_workspaces_lines [OF r l a n, of s0] p t lines
  have c1: "fst (list_workspaces ?env s0) = Inr ()"
    "out (snd (list_workspaces ?env s0)) =
       [''Active Workspaces:'', ''  0: main (3 windows)'', ''  1: Unnamed (0 windows)'']"
    by (simp_all add: s0_def)
  from list_workspaces_lines [OF r2 l2 a2 n2, of s0] p2
  have c2: "fst (list_workspaces ?env2 s0) = Inl UnicodeEncodeError"
    "out (snd (list_workspaces ?env2 s0)) = [''Active Workspaces:'']"
    by (simp_all add: s0_def)
  from a c1 c2 show ?thesis by simp
qed

text \<open>
  The claim as stated covers the empty array, a valid array of no records: there the
  header is not printed.
\<close>

theorem list_workspaces_lines_counterexample:
  "run (example_env (Ran 0 ''[]'') (Decoded (JArr []))) [''hyprctl'', ''workspaces'', ''-j'']
     = Ran 0 ''[]'' \<and>
   loads (example_env (Ran 0 ''[]'') (Decoded (JArr []))) ''[]'' = Decoded (JArr []) \<and>
   list_all2 is_record [] [] \<and>
   out (snd (list_workspaces (example_env (Ran 0 ''[]'') (Decoded (JArr []))) s0)) =
     [''No workspaces found''] \<and>
   out (snd (list_workspaces (example_env (Ran 0 ''[]'') (Decoded (JArr []))) s0)) \<noteq>
     ''Active Workspaces:'' # map record_line []"
proof -
  let ?env = "example_env (Ran 0 ''[]'') (Decoded (JArr []))"
  have r: "run ?env [''hyprctl'', ''workspaces'', ''-j''] = Ran 0 ''[]''"
    and l: "loads ?env ''[]'' = Decoded (JArr [])"
    by (simp_all add: example_env_simps)
  have "out (snd (list_workspaces ?env s0)) = [''No workspaces found'']"
    by (simp add: list_workspaces_decoded [OF r l] py_bool_def s0_def)
  with r l show ?thesis by simp
qed

subsection \<open>C2: the query exits with a non-zero status\<close>

text \<open>
  C2, as amended. When the query command exits with a non-zero status, so that
  \<open>subprocess.run\<close> raises \<open>CalledProcessError\<close>, \<open>list_workspaces\<close> prints a diagnostic
  that contains the failure detail, then the line \<open>No workspaces found\<close>, and nothing else;
  it returns normally, and the exit status of the process is 0. The failure detail names
  the command and its exit status, and is ASCII text.
\<close>

theorem list_workspaces_query_failed:
  assumes "run env [''hyprctl'', ''workspaces'', ''-j''] = Ran rc text" and "rc \<noteq> 0"
  shows "fst (list_workspaces env s) = Inr () \<and>
         out (snd (list_workspaces env s)) =
           out s @ [''Error getting workspaces: '' @
                      str_called env [''hyprctl'', ''workspaces'', ''-j''] rc,
                    ''No workspaces found''] \<and>
         exit_status (fst (main env \<lparr>action = ListAction, name = nm\<rparr> s)) = 0"
  by (simp add: main_def list_workspaces_failed [OF assms])

theorem list_workspaces_query_failed_witness:
  "run (example_env (Ran 1 []) (DecodeError [])) [''hyprctl'', ''workspaces'', ''-j''] = Ran 1 [] \<and>
   (1::int) \<noteq> 0 \<and>
   fst (list_workspaces (example_env (Ran 1 []) (DecodeError [])) s0) = Inr () \<and>
   out (snd (list_workspaces (example_env (Ran 1 []) (DecodeError [])) s0)) =
     [''Error getting workspaces: Command '' @ [CHR 0x27] @ ''['' @ [CHR 0x27] @ ''hyprctl'' @
        [CHR 0x27] @ '', '' @ [CHR 0x27] @ ''workspaces'' @ [CHR 0x27] @ '', '' @ [CHR 0x27] @
        ''-j'' @ [CHR 0x27] @ '']'' @ [CHR 0x27] @ '' returned non-zero exit status 1.'',
      ''No workspaces found''] \<and>
   exit_status (fst (main (example_env (Ran 1 []) (DecodeError []))
     \<lparr>action = ListAction, name = None\<rparr> s0)) = 0"
proof -
  let ?env = "example_env (Ran 1 []) (DecodeError [])"
  have r: "run ?env [''hyprctl'', ''workspaces'', ''-j''] = Ran 1 []"
    by (simp add: example_env_simps)
  have n: "(1::int) \<noteq> 0"
    by simp
  from list_workspaces_query_failed [OF r n, of s0 None] r
  show ?thesis
    by (simp add: s0_def str_called_query_1)
qed

text \<open>The claim as stated: after the diagnostic there is no further output.\<close>

theorem list_workspaces_query_failed_counterexample:
  "out (snd (list_workspaces (example_env (Ran 1 []) (DecodeError [])) s0)) =
     [''Error getting workspaces: Command '' @ [CHR 0x27] @ ''['' @ [CHR 0x27] @ ''hyprctl'' @
        [CHR 0x27] @ '', '' @ [CHR 0x27] @ ''workspaces'' @ [CHR 0x27] @ '', '' @ [CHR 0x27] @
        ''-j'' @ [CHR 0x27] @ '']'' @ [CHR 0x27] @ '' returned non-zero exit status 1.'',
      ''No workspaces found''] \<and>
   out (snd (list_workspaces (example_env (Ran 1 []) (DecodeError [])) s0)) \<noteq>
     [''Error getting workspaces: Command '' @ [CHR 0x27] @ ''['' @ [CHR 0x27] @ ''hyprctl'' @
        [CHR 0x27] @ '', '' @ [CHR 0x27] @ ''workspaces'' @ [CHR 0x27] @ '', '' @ [CHR 0x27] @
        ''-j'' @ [CHR 0x27] @ '']'' @ [CHR 0x27] @ '' returned non-zero exit status 1.'']"
proof -
  let ?env = "example_env (Ran 1 []) (DecodeError [])"
  have r: "run ?env [''hyprctl'', ''workspaces'', ''-j''] = Ran 1 []"
    by (simp add: example_env_simps)
  have n: "(1::int) \<noteq> 0"
    by simp
  show ?thesis
    by (simp add: list_workspaces_failed [OF r n] s0_def str_called_query_1)
qed

subsection \<open>C3: output that is not decoded, or not of the expected shape\<close>

text \<open>
  C3, as amended. When the query exits with status zero and \<open>json.loads\<close> raises
  \<open>JSONDecodeError\<close> on its output, the error is caught where it is raised:
  \<open>list_workspaces\<close> prints \<open>Error parsing workspaces:\<close> with the message, then
  \<open>No workspaces found\<close>, and returns normally; when standard output cannot encode the
  message, \<open>print\<close> raises \<open>UnicodeEncodeError\<close> instead and nothing is printed. Output that
  \<open>json.loads\<close> decodes is not checked further, whether it is valid JSON or one of the
  texts \<open>NaN\<close>, \<open>Infinity\<close>, \<open>-Infinity\<close>: when the decoded value is not an array of
  objects with \<open>id\<close> and \<open>windows\<close>, \<open>list_workspaces\<close> prints \<open>No workspaces found\<close> and
  returns normally if the value is false in Python (\<open>null\<close>, \<open>false\<close>, zero, an empty
  string or object), and otherwise an exception that nothing catches leaves
  \<open>list_workspaces\<close>: \<open>TypeError\<close>, \<open>KeyError\<close>, or \<open>UnicodeEncodeError\<close> from the text of
  an earlier element.
\<close>

theorem list_workspaces_malformed:
  assumes "run env [''hyprctl'', ''workspaces'', ''-j''] = Ran 0 text"
  shows "(loads env text = DecodeError msg \<longrightarrow>
            (if can_print env (''Error parsing workspaces: '' @ msg)
             then fst (list_workspaces env s) = Inr () \<and>
                  out (snd (list_workspaces env s)) =
                    out s @ [''Error parsing workspaces: '' @ msg, ''No workspaces found'']
             else fst (list_workspaces env s) = Inl UnicodeEncodeError \<and>
                  out (snd (list_workspaces env s)) = out s)) \<and>
         (loads env text = Decoded v \<and> \<not> expected_shape v \<longrightarrow>
            (if py_bool v
             then fst (list_workspaces env s) = Inl TypeError \<or>
                  fst (list_workspaces env s) = Inl (KeyError ''id'') \<or>
                  fst (list_workspaces env s) = Inl (KeyError ''windows'') \<or>
                  fst (list_workspaces env s) = Inl UnicodeEncodeError
             else fst (list_workspaces env s) = Inr () \<and>
                  out (snd (list_workspaces env s)) = out s @ [''No workspaces found'']))"
proof (intro conjI impI)
  assume "loads env text = DecodeError msg"
  from list_workspaces_undecodable [OF assms this, of s]
  show "if can_print env (''Error parsing workspaces: '' @ msg)
        then fst (list_workspaces env s) = Inr () \<and>
             out (snd (list_workspaces env s)) =
               out s @ [''Error parsing workspaces: '' @ msg, ''No workspaces found'']
        else fst (list_workspaces env s) = Inl UnicodeEncodeError \<and>
             out (snd (list_workspaces env s)) = out s"
    by simp
next
  assume v: "loads env text = Decoded v \<and> \<not> expected_shape v"
  show "if py_bool v
        then fst (list_workspaces env s) = Inl TypeError \<or>
             fst (list_workspaces env s) = Inl (KeyError ''id'') \<or>
             fst (list_workspaces env s) = Inl (KeyError ''windows'') \<or>
             fst (list_workspaces env s) = Inl UnicodeEncodeError
        else fst (list_workspaces env s) = Inr () \<and>
             out (snd (list_workspaces env s)) = out s @ [''No workspaces found'']"
  proof (cases "py_bool v")
    case True
    with list_workspaces_unexpected [OF assms, of v s] v show ?thesis by simp
  next
    case False
    with list_workspaces_falsy [OF assms, of v s] v show ?thesis by simp
  qed
qed

text \<open>
  Three outputs: text that is not JSON; an array whose only element has \<open>id\<close> and lacks
  \<open>windows\<close>; and \<open>null\<close>.
\<close>

theorem list_workspaces_malformed_witness:
  "out (snd (list_workspaces (example_env (Ran 0 ''oops'') (DecodeError ''Expecting value'')) s0)) =
     [''Error parsing workspaces: Expecting value'', ''No workspaces found''] \<and>
   fst (list_workspaces (example_env (Ran 0 ''oops'') (DecodeError ''Expecting value'')) s0) =
     Inr () \<and>
   fst (list_workspaces
     (example_env (Ran 0 []) (Decoded (JArr [JObj [(''id'', JInt 7)]]))) s0) =
     Inl (KeyError ''windows'') \<and>
   fst (list_workspaces (example_env (Ran 0 ''null'') (Decoded JNull)) s0) = Inr () \<and>
   out (snd (list_workspaces (example_env (Ran 0 ''null'') (Decoded JNull)) s0)) =
     [''No workspaces found'']"
proof -
  let ?e1 = "example_env (Ran 0 ''oops'') (DecodeError ''Expecting value'')"
  let ?v2 = "JArr [JObj [(''id'', JInt 7)]]"
  let ?e2 = "example_env (Ran 0 []) (Decoded ?v2)"
  let ?e3 = "example_env (Ran 0 ''null'') (Decoded JNull)"
  have r1: "run ?e1 [''hyprctl'', ''workspaces'', ''-j''] = Ran 0 ''oops''"
    and l1: "loads ?e1 ''oops'' = DecodeError ''Expecting value''"
    and p1: "can_print ?e1 (''Error parsing workspaces: '' @ ''Expecting value'')"
    by (simp_all add: example_env_simps can_print_example is_ascii_def)
  have r2: "run ?e2 [''hyprctl'', ''workspaces'', ''-j''] = Ran 0 []"
    and l2: "loads ?e2 [] = Decoded ?v2 \<and> \<not> expected_shape ?v2"
    and b2: "py_bool ?v2"
    by (simp_all add: example_env_simps expected_shape_def has_required_fields_def py_bool_def)
  have r3: "run ?e3 [''hyprctl'', ''workspaces'', ''-j''] = Ran 0 ''null''"
    and l3: "loads ?e3 ''null'' = Decoded JNull \<and> \<not> expected_shape JNull"
    and b3: "\<not> py_bool JNull"
    by (simp_all add: example_env_simps expected_shape_def py_bool_def)
  have k2: "fst (list_workspaces ?e2 s0) \<noteq> Inl TypeError"
    "fst (list_workspaces ?e2 s0) \<noteq> Inl (KeyError ''id'')"
    "fst (list_workspaces ?e2 s0) \<noteq> Inl UnicodeEncodeError"
    by (simp_all add: list_workspaces_decoded [OF r2 conjunct1 [OF l2]] py_bool_def py_iter_def
        ws_line_def py_getitem_def py_get_def)
  from list_workspaces_malformed [OF r1, of "''Expecting value''" s0] l1 p1
  have c1: "fst (list_workspaces ?e1 s0) = Inr ()"
    "out (snd (list_workspaces ?e1 s0)) =
       [''Error parsing workspaces: Expecting value'', ''No workspaces found'']"
    by (simp_all add: s0_def)
  from list_workspaces_malformed [OF r2, of _ s0 ?v2] l2 b2 k2
  have c2: "fst (list_workspaces ?e2 s0) = Inl (KeyError ''windows'')"
    by simp
  from list_workspaces_malformed [OF r3, of _ s0 JNull] l3 b3
  have c3: "fst (list_workspaces ?e3 s0) = Inr ()"
    "out (snd (list_workspaces ?e3 s0)) = [''No workspaces found'']"
    by (simp_all add: s0_def)
  from c1 c2 c3 show ?thesis by simp
qed

text \<open>
  The claim as stated: no output of an unexpected shape aborts the process. On the array
  \<open>[1]\<close> the header is printed and a \<open>TypeError\<close> leaves \<open>list_workspaces\<close>.
\<close>

theorem list_workspaces_malformed_counterexample:
  "\<not> expected_shape (JArr [JInt 1]) \<and>
   fst (list_workspaces (example_env (Ran 0 ''[1]'') (Decoded (JArr [JInt 1]))) s0) =
     Inl TypeError \<and>
   out (snd (list_workspaces (example_env (Ran 0 ''[1]'') (Decoded (JArr [JInt 1]))) s0)) =
     [''Active Workspaces:''] \<and>
   exit_status (fst (list_workspaces
     (example_env (Ran 0 ''[1]'') (Decoded (JArr [JInt 1]))) s0)) = 1"
proof -
  let ?env = "example_env (Ran 0 ''[1]'') (Decoded (JArr [JInt 1]))"
  have r: "run ?env [''hyprctl'', ''workspaces'', ''-j''] = Ran 0 ''[1]''"
    and l: "loads ?env ''[1]'' = Decoded (JArr [JInt 1])"
    by (simp_all add: example_env_simps)
  show ?thesis
    by (simp add: list_workspaces_decoded [OF r l] py_bool_def py_iter_def ws_line_def
        py_getitem_def expected_shape_def has_required_fields_def s0_def)
qed

subsection \<open>C4: the exit status of the process\<close>

text \<open>
  C4, as amended. For a command line that the argument parser accepts, the exit status of
  the process is 1 or 0. It is 1 when \<open>create\<close> is invoked without a non-empty \<open>--name\<close>,
  and when an exception that the script does not catch leaves \<open>main\<close>: \<open>subprocess.run\<close>
  raises something other than \<open>CalledProcessError\<close>; \<open>json.loads\<close> raises something other
  than \<open>JSONDecodeError\<close>; the value that \<open>json.loads\<close> returns is true in Python and is not
  an array of objects with the fields \<open>id\<close> and \<open>windows\<close>; or standard output cannot
  encode a text that the script prints (the text of a record, the confirmation or the
  diagnostic of \<open>create\<close>, the message of a \<open>JSONDecodeError\<close>). In every other case it is 0:
  when the query exits with a non-zero status; when the dispatch command does, or
  \<open>json.loads\<close> raises \<open>JSONDecodeError\<close>, and the diagnostic can be encoded; when the
  decoded value is false in Python; and when it is an array of objects with \<open>id\<close> and
  \<open>windows\<close> whose texts can be encoded.
\<close>

theorem main_exit_status:
  "exit_status (fst (main env a s)) =
     (if (case action a of
            CreateAction \<Rightarrow>
              (case name a of
                 None \<Rightarrow> True
               | Some nm \<Rightarrow>
                   nm = [] \<or>
                   (case run env (py_split (''hyprctl dispatch workspace name:'' @ nm)) of
                      RunError err \<Rightarrow> True
                    | Ran rc text \<Rightarrow>
                        \<not> can_print env
                           (if rc = 0 then ''Created workspace: '' @ nm
                            else ''Error creating workspace: '' @
                              str_called env
                                (py_split (''hyprctl dispatch workspace name:'' @ nm)) rc)))
          | ListAction \<Rightarrow>
              (case run env [''hyprctl'', ''workspaces'', ''-j''] of
                 RunError err \<Rightarrow> True
               | Ran rc text \<Rightarrow>
                   rc = 0 \<and>
                   (case loads env text of
                      Decoded v \<Rightarrow> py_bool v \<and> \<not> (expected_shape v \<and> lines_printable env v)
                    | DecodeError msg \<Rightarrow>
                        \<not> can_print env (''Error parsing workspaces: '' @ msg)
                    | LoadsError err \<Rightarrow> True)))
      then 1 else 0)"
proof (cases "action a")
  case ListAction
  then show ?thesis by (simp add: main_def list_exit_status)
next
  case CreateAction
  show ?thesis
  proof (cases "name a")
    case None
    with CreateAction show ?thesis by (simp add: main_def name_required_result)
  next
    case (Some nm)
    with CreateAction show ?thesis
      by (simp add: main_def name_required_result create_exit_status)
  qed
qed

text \<open>
  Five runs on an ASCII standard output: \<open>create\<close> without a name; \<open>create --name coding\<close>
  with a utility that exits with status zero; \<open>list\<close> with a query that exits with status
  3; \<open>list\<close> with output that is not decoded; \<open>list\<close> with the output \<open>NaN\<close>.
\<close>

theorem main_exit_status_witness:
  "exit_status (fst (main (example_env (Ran 0 []) (DecodeError []))
     \<lparr>action = CreateAction, name = None\<rparr> s0)) = 1 \<and>
   exit_status (fst (main (example_env (Ran 0 []) (DecodeError []))
     \<lparr>action = CreateAction, name = Some ''coding''\<rparr> s0)) = 0 \<and>
   exit_status (fst (main (example_env (Ran 3 []) (DecodeError []))
     \<lparr>action = ListAction, name = None\<rparr> s0)) = 0 \<and>
   exit_status (fst (main (example_env (Ran 0 ''oops'') (DecodeError ''Expecting value''))
     \<lparr>action = ListAction, name = None\<rparr> s0)) = 0 \<and>
   exit_status (fst (main (example_env (Ran 0 ''NaN'') (Decoded (JFloat NaN)))
     \<lparr>action = ListAction, name = None\<rparr> s0)) = 1"
proof -
  have p: "can_print (example_env (Ran 0 []) (DecodeError [])) (''Created workspace: '' @ ''coding'')"
    "can_print (example_env (Ran 0 ''oops'') (DecodeError ''Expecting value''))
       (''Error parsing workspaces: '' @ ''Expecting value'')"
    by (simp_all add: can_print_example is_ascii_def)
  have e: "py_bool (JFloat NaN)" "\<not> expected_shape (JFloat NaN)"
    by (simp_all add: py_bool_def float_bool_def expected_shape_def)
  from
    main_exit_status [of "example_env (Ran 0 []) (DecodeError [])"
      "\<lparr>action = CreateAction, name = None\<rparr>" s0]
    main_exit_status [of "example_env (Ran 0 []) (DecodeError [])"
      "\<lparr>action = CreateAction, name = Some ''coding''\<rparr>" s0]
    main_exit_status [of "example_env (Ran 3 []) (DecodeError [])"
      "\<lparr>action = ListAction, name = None\<rparr>" s0]
    main_exit_status [of "example_env (Ran 0 ''oops'') (DecodeError ''Expecting value'')"
      "\<lparr>action = ListAction, name = None\<rparr>" s0]
    main_exit_status [of "example_env (Ran 0 ''NaN'') (Decoded (JFloat NaN))"
      "\<lparr>action = ListAction, name = None\<rparr>" s0]
    p e
  show ?thesis
    by (simp add: example_env_simps)
qed

text \<open>
  The claim as stated: only \<open>create\<close> without \<open>--name\<close> ends with a non-zero status. The
  action \<open>list\<close> ends with status 1 when the query prints the array \<open>[1]\<close>.
\<close>

theorem main_exit_status_counterexample:
  "action \<lparr>action = ListAction, name = None\<rparr> \<noteq> CreateAction \<and>
   fst (main (example_env (Ran 0 ''[1]'') (Decoded (JArr [JInt 1])))
     \<lparr>action = ListAction, name = None\<rparr> s0) = Inl TypeError \<and>
   exit_status (fst (main (example_env (Ran 0 ''[1]'') (Decoded (JArr [JInt 1])))
     \<lparr>action = ListAction, name = None\<rparr> s0)) = 1"
proof -
  let ?env = "example_env (Ran 0 ''[1]'') (Decoded (JArr [JInt 1]))"
  have r: "run ?env [''hyprctl'', ''workspaces'', ''-j''] = Ran 0 ''[1]''"
    and l: "loads ?env ''[1]'' = Decoded (JArr [JInt 1])"
    by (simp_all add: example_env_simps)
  show ?thesis
    by (simp add: main_def list_workspaces_decoded [OF r l] py_bool_def py_iter_def ws_line_def
        py_getitem_def s0_def)
qed

subsection \<open>C5: \<open>create\<close> requires a name\<close>

text \<open>
  C5. When the action is \<open>create\<close> and \<open>--name\<close> is absent or the empty string, the process
  prints an error message and exits with status 1, and the utility is never started; when
  \<open>--name\<close> is a non-empty string, \<open>create_workspace\<close> is called with that name.
\<close>

theorem main_create_requires_name:
  assumes "action a = CreateAction"
  shows "(name a = None \<or> name a = Some [] \<longrightarrow>
            fst (main env a s) = Inl (SystemExit 1) \<and>
            exit_status (fst (main env a s)) = 1 \<and>
            out (snd (main env a s)) = out s @ [''Error: --name required for create action''] \<and>
            calls (snd (main env a s)) = calls s) \<and>
         (\<forall>nm. name a = Some nm \<and> nm \<noteq> [] \<longrightarrow> main env a s = create_workspace env nm s)"
  using assms by (auto simp: main_def name_required_result)

theorem main_create_requires_name_witness:
  "exit_status (fst (main (example_env (Ran 0 []) (DecodeError []))
     \<lparr>action = CreateAction, name = None\<rparr> s0)) = 1 \<and>
   out (snd (main (example_env (Ran 0 []) (DecodeError []))
     \<lparr>action = CreateAction, name = None\<rparr> s0)) = [''Error: --name required for create action''] \<and>
   calls (snd (main (example_env (Ran 0 []) (DecodeError []))
     \<lparr>action = CreateAction, name = None\<rparr> s0)) = [] \<and>
   exit_status (fst (main (example_env (Ran 0 []) (DecodeError []))
     \<lparr>action = CreateAction, name = Some []\<rparr> s0)) = 1 \<and>
   calls (snd (main (example_env (Ran 0 []) (DecodeError []))
     \<lparr>action = CreateAction, name = Some []\<rparr> s0)) = [] \<and>
   main (example_env (Ran 0 []) (DecodeError []))
     \<lparr>action = CreateAction, name = Some ''coding''\<rparr> s0 =
   create_workspace (example_env (Ran 0 []) (DecodeError [])) ''coding'' s0"
  using
    main_create_requires_name [of "\<lparr>action = CreateAction, name = None\<rparr>"
      "example_env (Ran 0 []) (DecodeError [])" s0]
    main_create_requires_name [of "\<lparr>action = CreateAction, name = Some []\<rparr>"
      "example_env (Ran 0 []) (DecodeError [])" s0]
    main_create_requires_name [of "\<lparr>action = CreateAction, name = Some ''coding''\<rparr>"
      "example_env (Ran 0 []) (DecodeError [])" s0]
  by (simp add: s0_def)

subsection \<open>C6: the argument vector of the dispatch command\<close>

text \<open>
  C6 says that every non-empty name is carried as the single argument \<open>name:<name>\<close>. The
  script formats the whole command line and then splits it at whitespace, so the name
  \<open>my ws\<close> arrives as the two arguments \<open>name:my\<close> and \<open>ws\<close>. The utility is still started
  exactly once (\<open>create_workspace_calls\<close>), and a name without whitespace is carried whole
  (\<open>create_workspace_no_space\<close>).
\<close>

theorem create_workspace_splits_name:
  "calls (snd (create_workspace env ''my ws'' s)) =
     calls s @ [[''hyprctl'', ''dispatch'', ''workspace'', ''name:my'', ''ws'']] \<and>
   calls (snd (create_workspace env ''my ws'' s)) \<noteq>
     calls s @ [[''hyprctl'', ''dispatch'', ''workspace'', ''name:my ws'']]"
proof -
  have "py_split (''hyprctl dispatch workspace name:'' @ ''my ws'') =
          [''hyprctl'', ''dispatch'', ''workspace'', ''name:my'', ''ws'']"
    by (simp add: py_split_def isspace_def)
  then show ?thesis
    by (simp only: create_workspace_calls) simp
qed

subsection \<open>C7: the empty array\<close>

text \<open>
  C7. When the query exits with status zero and its output decodes to the empty array,
  \<open>list_workspaces\<close> prints exactly the line \<open>No workspaces found\<close> and nothing else.
\<close>

theorem list_workspaces_empty:
  assumes "run env [''hyprctl'', ''workspaces'', ''-j''] = Ran 0 text"
    and "loads env text = Decoded (JArr [])"
  shows "fst (list_workspaces env s) = Inr () \<and>
         out (snd (list_workspaces env s)) = out s @ [''No workspaces found'']"
  by (simp add: list_workspaces_decoded [OF assms] py_bool_def)

theorem list_workspaces_empty_witness:
  "run (example_env (Ran 0 ''[]'') (Decoded (JArr []))) [''hyprctl'', ''workspaces'', ''-j'']
     = Ran 0 ''[]'' \<and>
   loads (example_env (Ran 0 ''[]'') (Decoded (JArr []))) ''[]'' = Decoded (JArr []) \<and>
   fst (list_workspaces (example_env (Ran 0 ''[]'') (Decoded (JArr []))) s0) = Inr () \<and>
   out (snd (list_workspaces (example_env (Ran 0 ''[]'') (Decoded (JArr []))) s0)) =
     [''No workspaces found'']"
  using list_workspaces_empty [of "example_env (Ran 0 ''[]'') (Decoded (JArr []))" "''[]''" s0]
  by (simp add: example_env_simps s0_def)

subsection \<open>C8: output that \<open>json.loads\<close> rejects\<close>

text \<open>
  C8, as amended. When the query exits with status zero and \<open>json.loads\<close> raises
  \<open>JSONDecodeError\<close> on its output, \<open>list_workspaces\<close> prints the diagnostic
  \<open>Error parsing workspaces:\<close> with the message of the error, then \<open>No workspaces found\<close>,
  and returns normally; the exit status of the process is 0. This holds when standard output
  can encode the message; when it cannot, \<open>print\<close> raises \<open>UnicodeEncodeError\<close>, nothing is
  printed and the exit status is 1. Output that is not valid JSON and that \<open>json.loads\<close>
  decodes all the same (\<open>NaN\<close>, \<open>Infinity\<close>, \<open>-Infinity\<close>) gets no diagnostic.
\<close>

theorem list_workspaces_not_json:
  assumes "run env [''hyprctl'', ''workspaces'', ''-j''] = Ran 0 text"
    and "loads env text = DecodeError msg"
  shows "if can_print env (''Error parsing workspaces: '' @ msg)
         then fst (list_workspaces env s) = Inr () \<and>
              out (snd (list_workspaces env s)) =
                out s @ [''Error parsing workspaces: '' @ msg, ''No workspaces found''] \<and>
              exit_status (fst (main env \<lparr>action = ListAction, name = nm\<rparr> s)) = 0
         else fst (list_workspaces env s) = Inl UnicodeEncodeError \<and>
              out (snd (list_workspaces env s)) = out s \<and>
              exit_status (fst (main env \<lparr>action = ListAction, name = nm\<rparr> s)) = 1"
  by (simp add: main_def list_workspaces_undecodable [OF assms])

theorem list_workspaces_not_json_witness:
  "run (example_env (Ran 0 ''oops'') (DecodeError ''Expecting value: line 1 column 1 (char 0)''))
     [''hyprctl'', ''workspaces'', ''-j''] = Ran 0 ''oops'' \<and>
   loads (example_env (Ran 0 ''oops'') (DecodeError ''Expecting value: line 1 column 1 (char 0)''))
     ''oops'' = DecodeError ''Expecting value: line 1 column 1 (char 0)'' \<and>
   fst (list_workspaces
     (example_env (Ran 0 ''oops'') (DecodeError ''Expecting value: line 1 column 1 (char 0)''))
     s0) = Inr () \<and>
   out (snd (list_workspaces
       (example_env (Ran 0 ''oops'') (DecodeError ''Expecting value: line 1 column 1 (char 0)''))
       s0)) =
     [''Error parsing workspaces: Expecting value: line 1 column 1 (char 0)'',
      ''No workspaces found''] \<and>
   exit_status (fst (main
     (example_env (Ran 0 ''oops'') (DecodeError ''Expecting value: line 1 column 1 (char 0)''))
     \<lparr>action = ListAction, name = None\<rparr> s0)) = 0"
proof -
  let ?msg = "''Expecting value: line 1 column 1 (char 0)''"
  let ?env = "example_env (Ran 0 ''oops'') (DecodeError ?msg)"
  have r: "run ?env [''hyprctl'', ''workspaces'', ''-j''] = Ran 0 ''oops''"
    and l: "loads ?env ''oops'' = DecodeError ?msg"
    by (simp_all add: example_env_simps)
  have p: "can_print ?env (''Error parsing workspaces: '' @ ?msg)"
    by (simp add: can_print_example is_ascii_def)
  from list_workspaces_not_json [OF r l, of s0 None] p r l show ?thesis
    by (simp add: s0_def)
qed

text \<open>
  The claim as stated: every output that is not valid JSON gets a parse-error diagnostic and
  a normal end. The text \<open>NaN\<close> is not valid JSON; \<open>json.loads\<close> decodes it to the float
  that is not a number, which is true in Python and not iterable: the header is printed, a
  \<open>TypeError\<close> leaves \<open>list_workspaces\<close>, and the exit status is 1.
\<close>

theorem list_workspaces_not_json_counterexample:
  "\<not> begins_json_value ''NaN'' \<and>
   run (example_env (Ran 0 ''NaN'') (Decoded (JFloat NaN))) [''hyprctl'', ''workspaces'', ''-j'']
     = Ran 0 ''NaN'' \<and>
   loads (example_env (Ran 0 ''NaN'') (Decoded (JFloat NaN))) ''NaN'' = Decoded (JFloat NaN) \<and>
   fst (list_workspaces (example_env (Ran 0 ''NaN'') (Decoded (JFloat NaN))) s0) =
     Inl TypeError \<and>
   out (snd (list_workspaces (example_env (Ran 0 ''NaN'') (Decoded (JFloat NaN))) s0)) =
     [''Active Workspaces:''] \<and>
   exit_status (fst (main (example_env (Ran 0 ''NaN'') (Decoded (JFloat NaN)))
     \<lparr>action = ListAction, name = None\<rparr> s0)) = 1"
proof -
  let ?env = "example_env (Ran 0 ''NaN'') (Decoded (JFloat NaN))"
  have r: "run ?env [''hyprctl'', ''workspaces'', ''-j''] = Ran 0 ''NaN''"
    and l: "loads ?env ''NaN'' = Decoded (JFloat NaN)"
    by (simp_all add: example_env_simps)
  have b: "\<not> begins_json_value ''NaN''"
    by (simp add: begins_json_value_def json_space_def)
  from r l b show ?thesis
    by (simp add: main_def list_workspaces_decoded [OF r l] py_bool_def float_bool_def
        py_iter_def s0_def)
qed

subsection \<open>C9: the confirmation\<close>

text \<open>
  C9, as amended. When \<open>create\<close> is invoked with a non-empty name and the dispatch command
  exits with status zero, \<open>print\<close> is called with the text \<open>Created workspace: <name>\<close>.
  When standard output can encode the name, as it always can when the name is ASCII, that
  text is the output and \<open>main\<close> returns normally; when it cannot, \<open>print\<close> raises
  \<open>UnicodeEncodeError\<close> and nothing is printed.
\<close>

theorem create_prints_confirmation:
  assumes "action a = CreateAction" and "name a = Some nm" and "nm \<noteq> []"
    and "run env (py_split (''hyprctl dispatch workspace name:'' @ nm)) = Ran 0 text"
  shows "(if can_print env (''Created workspace: '' @ nm)
          then fst (main env a s) = Inr () \<and>
               out (snd (main env a s)) = out s @ [''Created workspace: '' @ nm]
          else fst (main env a s) = Inl UnicodeEncodeError \<and>
               out (snd (main env a s)) = out s) \<and>
         (list_all is_ascii nm \<longrightarrow> can_print env (''Created workspace: '' @ nm))"
proof -
  have pre: "list_all is_ascii ''Created workspace: ''"
    by (simp add: is_ascii_def)
  have "list_all is_ascii nm \<longrightarrow> can_print env (''Created workspace: '' @ nm)"
  proof
    assume "list_all is_ascii nm"
    with pre have "list_all is_ascii (''Created workspace: '' @ nm)"
      by (simp only: list_all_append simp_thms)
    then show "can_print env (''Created workspace: '' @ nm)"
      by (rule can_print_ascii)
  qed
  with assms show ?thesis
    by (simp add: main_def create_workspace_result print_def del: append.simps)
qed

theorem create_prints_confirmation_witness:
  "action \<lparr>action = CreateAction, name = Some ''coding''\<rparr> = CreateAction \<and>
   name \<lparr>action = CreateAction, name = Some ''coding''\<rparr> = Some ''coding'' \<and>
   ''coding'' \<noteq> [] \<and>
   run (example_env (Ran 0 []) (DecodeError []))
     (py_split (''hyprctl dispatch workspace name:'' @ ''coding'')) = Ran 0 [] \<and>
   list_all is_ascii ''coding'' \<and>
   fst (main (example_env (Ran 0 []) (DecodeError []))
       \<lparr>action = CreateAction, name = Some ''coding''\<rparr> s0) = Inr () \<and>
   out (snd (main (example_env (Ran 0 []) (DecodeError []))
       \<lparr>action = CreateAction, name = Some ''coding''\<rparr> s0)) = [''Created workspace: coding'']"
proof -
  let ?env = "example_env (Ran 0 []) (DecodeError [])"
  let ?a = "\<lparr>action = CreateAction, name = Some ''coding''\<rparr>"
  have h: "action ?a = CreateAction" "name ?a = Some ''coding''" "''coding'' \<noteq> []"
    by simp_all
  have r: "run ?env (py_split (''hyprctl dispatch workspace name:'' @ ''coding'')) = Ran 0 []"
    by (simp add: example_env_simps)
  have c: "list_all is_ascii ''coding''"
    by (simp add: is_ascii_def)
  from create_prints_confirmation [OF h r, of s0] c
  have "fst (main ?env ?a s0) = Inr ()"
    "out (snd (main ?env ?a s0)) = [''Created workspace: coding'']"
    by (simp_all add: s0_def split: if_splits)
  with h r c show ?thesis by simp
qed

text \<open>
  The claim as stated covers every non-empty name. With a name that has a character outside
  ASCII, on an ASCII standard output, the dispatch command exits with status zero and the
  confirmation is not printed: the process ends with status 1.
\<close>

theorem create_prints_confirmation_counterexample:
  "action \<lparr>action = CreateAction, name = Some [CHR ''c'', CHR ''a'', CHR ''f'', CHR 0xE9]\<rparr> =
     CreateAction \<and>
   [CHR ''c'', CHR ''a'', CHR ''f'', CHR 0xE9] \<noteq> [] \<and>
   run (example_env (Ran 0 []) (DecodeError []))
     (py_split (''hyprctl dispatch workspace name:'' @ [CHR ''c'', CHR ''a'', CHR ''f'', CHR 0xE9]))
     = Ran 0 [] \<and>
   fst (main (example_env (Ran 0 []) (DecodeError []))
     \<lparr>action = CreateAction, name = Some [CHR ''c'', CHR ''a'', CHR ''f'', CHR 0xE9]\<rparr> s0) =
     Inl UnicodeEncodeError \<and>
   out (snd (main (example_env (Ran 0 []) (DecodeError []))
     \<lparr>action = CreateAction, name = Some [CHR ''c'', CHR ''a'', CHR ''f'', CHR 0xE9]\<rparr> s0)) = [] \<and>
   exit_status (fst (main (example_env (Ran 0 []) (DecodeError []))
     \<lparr>action = CreateAction, name = Some [CHR ''c'', CHR ''a'', CHR ''f'', CHR 0xE9]\<rparr> s0)) = 1"
proof -
  let ?nm = "[CHR ''c'', CHR ''a'', CHR ''f'', CHR 0xE9]"
  let ?env = "example_env (Ran 0 []) (DecodeError [])"
  have r: "run ?env (py_split (''hyprctl dispatch workspace name:'' @ ?nm)) = Ran 0 []"
    by (simp add: example_env_simps)
  have p: "\<not> can_print ?env (''Created workspace: '' @ ?nm)"
    by (simp add: can_print_example is_ascii_def)
  have "main ?env \<lparr>action = CreateAction, name = Some ?nm\<rparr> s0 =
          (Inl UnicodeEncodeError,
           s0\<lparr>calls := calls s0 @ [py_split (''hyprctl dispatch workspace name:'' @ ?nm)]\<rparr>)"
    using r p by (simp add: main_def create_workspace_result print_refused Let_def del: append.simps)
  with r show ?thesis
    by (simp add: s0_def)
qed

subsection \<open>C10: \<open>--name\<close> and the action \<open>list\<close>\<close>

text \<open>
  C10. With the action \<open>list\<close>, in the same environment and from the same state, a run given
  any \<open>--name\<close> and a run given none end with the same result: the same output, the same
  calls and the same exit status.
\<close>

theorem list_ignores_name:
  "main env \<lparr>action = ListAction, name = nm\<rparr> s =
   main env \<lparr>action = ListAction, name = None\<rparr> s"
  by (simp add: main_def)

end
